theory Spec2Isabelle
  imports Complex_Main "HOL-Library.AList" "HOL-Library.Char_ord" "HOL-Library.List_Lexorder"
begin

section \<open>Values, errors and the collaborators of the handler\<close>

text \<open>
  The program is one HTTP handler, \<open>DbExplorer.ServeHTTP\<close> of \<open>db_explorer.go\<close>, over a
  \<open>*sql.DB\<close>. The handler is embedded as a function from the request to the final state of
  its two collaborators: the \<open>http.ResponseWriter\<close> it writes to and the sequence of calls
  it makes on the database handle. What the database answers is an input of the model.
\<close>

text \<open>A Go \<open>interface{}\<close> value as the handlers meet it: what \<open>encoding/json\<close> decodes, what the
  driver scans into \<open>*interface{}\<close>, and what \<open>json.Encoder\<close> is given. \<open>VNil\<close> is Go's
  \<open>nil\<close> (JSON \<open>null\<close>). The handlers never compute on a number.\<close>

datatype val =
    VNil
  | VBool bool
  | VInt int
  | VFloat real
  | VStr string
  | VBytes string
  | VList "val list"
  | VMap "(string \<times> val) list"

text \<open>A Go \<open>error\<close>: the sentinel \<open>sql.ErrNoRows\<close>, or any other error with its text.\<close>

datatype error = ErrNoRows | Err string

fun Error :: "error \<Rightarrow> string" where
  "Error ErrNoRows = ''sql: no rows in result set''"
| "Error (Err s) = s"

subsection \<open>Strings\<close>

text \<open>\<open>strings.Trim(s, "/")\<close>: every leading and trailing cutset character is removed.\<close>

definition strings_Trim :: "string \<Rightarrow> char \<Rightarrow> string" where
  "strings_Trim s c = rev (dropWhile (\<lambda>x. x = c) (rev (dropWhile (\<lambda>x. x = c) s)))"

text \<open>\<open>strings.Split(s, "/")\<close> for a one-byte separator: one more part than separators, so
  the empty string splits into the one part \<open>""\<close>.\<close>

fun strings_Split :: "string \<Rightarrow> char \<Rightarrow> string list" where
  "strings_Split [] c = [[]]"
| "strings_Split (x # xs) c =
     (if x = c then [] # strings_Split xs c
      else (case strings_Split xs c of
              [] \<Rightarrow> [[x]]
            | p # ps \<Rightarrow> (x # p) # ps))"

fun strings_Join :: "string list \<Rightarrow> string \<Rightarrow> string" where
  "strings_Join [] sep = []"
| "strings_Join [x] sep = x"
| "strings_Join (x # y # ys) sep = x @ sep @ strings_Join (y # ys) sep"

text \<open>The verb \<open>%d\<close> of \<open>fmt.Sprintf\<close> on a non-negative integer.\<close>

definition digit :: "nat \<Rightarrow> char" where
  "digit n = ''0123456789'' ! (n mod 10)"

fun itoa :: "nat \<Rightarrow> string" where
  "itoa n = (if n < 10 then [digit n] else itoa (n div 10) @ [digit n])"

declare itoa.simps [simp del]

subsection \<open>The response writer\<close>

text \<open>
  What is written to the body is kept as the sequence of writes: \<open>Line s\<close> is
  \<open>fmt.Fprintln(w, s)\<close>, the text \<open>s\<close> followed by a newline; \<open>JsonLine v\<close> is
  \<open>json.NewEncoder(w).Encode(v)\<close>, the JSON text of \<open>v\<close> followed by a newline.
  \<open>w_status\<close> is \<open>None\<close> until a status line has been written.
\<close>

datatype chunk = Line string | JsonLine val

record ResponseWriter =
  w_header :: "(string \<times> string) list"
  w_status :: "nat option"
  w_body :: "chunk list"

definition Header_Set :: "string \<Rightarrow> string \<Rightarrow> ResponseWriter \<Rightarrow> ResponseWriter" where
  "Header_Set k v w = w\<lparr>w_header := AList.update k v (w_header w)\<rparr>"

definition Header_Del :: "string \<Rightarrow> ResponseWriter \<Rightarrow> ResponseWriter" where
  "Header_Del k w = w\<lparr>w_header := AList.delete k (w_header w)\<rparr>"

text \<open>\<open>WriteHeader\<close>: only the first call sets the status.\<close>

definition WriteHeader :: "nat \<Rightarrow> ResponseWriter \<Rightarrow> ResponseWriter" where
  "WriteHeader c w = (if w_status w = None then w\<lparr>w_status := Some c\<rparr> else w)"

text \<open>\<open>Write\<close>: a write before any \<open>WriteHeader\<close> sends status 200 first.\<close>

definition Write :: "chunk \<Rightarrow> ResponseWriter \<Rightarrow> ResponseWriter" where
  "Write ch w = (let w' = WriteHeader 200 w in w'\<lparr>w_body := w_body w' @ [ch]\<rparr>)"

text \<open>\<open>http.Error(w, error, code)\<close>.\<close>

definition http_Error :: "string \<Rightarrow> nat \<Rightarrow> ResponseWriter \<Rightarrow> ResponseWriter" where
  "http_Error msg c w =
     Write (Line msg)
       (WriteHeader c
         (Header_Set ''X-Content-Type-Options'' ''nosniff''
           (Header_Set ''Content-Type'' ''text/plain; charset=utf-8''
             (Header_Del ''Content-Length'' w))))"

definition json_Encode :: "val \<Rightarrow> ResponseWriter \<Rightarrow> ResponseWriter" where
  "json_Encode v w = Write (JsonLine v) w"

text \<open>The status the client receives: 200 when the handler returned without writing one.\<close>

definition StatusCode :: "ResponseWriter \<Rightarrow> nat" where
  "StatusCode w = (case w_status w of None \<Rightarrow> 200 | Some c \<Rightarrow> c)"

definition new_writer :: ResponseWriter where
  "new_writer = \<lparr>w_header = [], w_status = None, w_body = []\<rparr>"

subsection \<open>The database handle\<close>

text \<open>
  A result set as \<open>handleGetTable\<close> reads it: what \<open>rows.Columns()\<close> returns, and for each
  row that \<open>rows.Next()\<close> yields the outcome of \<open>rows.Scan\<close> into one \<open>*interface{}\<close> per
  column.
\<close>

record Rows =
  Columns :: "error + string list"
  scans :: "(error + val list) list"

text \<open>
  The \<open>*sql.Row\<close> of \<open>db.QueryRow\<close>: the query or its result set reported an error, or
  the result set is empty, or its first row holds these values.
\<close>

datatype Row = RowErr error | RowNone | RowVals "val list"

text \<open>
  \<open>Row.Scan(dest...)\<close> with \<open>n\<close> destinations of type \<open>*interface{}\<close>: the deferred error first,
  then \<open>sql.ErrNoRows\<close> when there is no row, then the count of destinations against the
  columns of the row.
\<close>

fun Row_Scan :: "Row \<Rightarrow> nat \<Rightarrow> error + val list" where
  "Row_Scan (RowErr e) n = Inl e"
| "Row_Scan RowNone n = Inl ErrNoRows"
| "Row_Scan (RowVals vs) n =
     (if n \<noteq> length vs
      then Inl (Err (''sql: expected '' @ itoa (length vs) @
                     '' destination arguments in Scan, not '' @ itoa n))
      else Inr vs)"

text \<open>
  What the database answers, by method of \<open>*sql.DB\<close>, statement text and bound arguments.
  \<open>db_Query\<close> is read by \<open>handleGetRecord\<close> only, one \<open>Scan(&columnName)\<close> into a string
  for each row.
\<close>

record DB =
  db_QueryContext :: "string \<Rightarrow> val list \<Rightarrow> error + Rows"
  db_Exec :: "string \<Rightarrow> val list \<Rightarrow> error option"
  db_QueryRow :: "string \<Rightarrow> val list \<Rightarrow> Row"
  db_Query :: "string \<Rightarrow> val list \<Rightarrow> error + (error + string) list"

text \<open>A call on the database handle: the statement text and the bound arguments.\<close>

datatype dbcall =
    QueryContext string "val list"
  | Exec string "val list"
  | QueryRow string "val list"
  | Query string "val list"

subsection \<open>Requests and the handler's state\<close>

text \<open>
  The request body as \<open>json.Decoder\<close> reads it: \<open>Malformed\<close> when no JSON value can be read
  from it, else the first JSON value of the stream (an object as its members in the order
  of the text).
\<close>

datatype body = Malformed | Json val

record Request =
  Method :: string
  URL_Path :: string
  URL_Query :: "string \<rightharpoonup> string list"
  Body :: body

text \<open>\<open>url.Values.Get\<close>: the first value of the key, \<open>""\<close> when there is none.\<close>

definition Values_Get :: "(string \<rightharpoonup> string list) \<Rightarrow> string \<Rightarrow> string" where
  "Values_Get v key = (case v key of None \<Rightarrow> [] | Some [] \<Rightarrow> [] | Some (x # xs) \<Rightarrow> x)"

record DbExplorer =
  db :: DB
  tables :: "string \<rightharpoonup> string list"

text \<open>
  Go leaves the order of \<open>range\<close> over a map open. The order taken in one run is an input
  of the model: \<open>tablesRange\<close> is the order in which \<open>range de.tables\<close> yields the keys,
  \<open>dataRange\<close> the order in which \<open>range data\<close> yields the entries of the decoded body.
\<close>

record iteration =
  tablesRange :: "string list"
  dataRange :: "(string \<times> val) list"

definition range_of_keys :: "string list \<Rightarrow> (string \<rightharpoonup> 'a) \<Rightarrow> bool" where
  "range_of_keys ks m = (distinct ks \<and> set ks = dom m)"


record state =
  resp :: ResponseWriter
  calls :: "dbcall list"

definition start :: state where
  "start = \<lparr>resp = new_writer, calls = []\<rparr>"

definition respond :: "(ResponseWriter \<Rightarrow> ResponseWriter) \<Rightarrow> state \<Rightarrow> state" where
  "respond f st = st\<lparr>resp := f (resp st)\<rparr>"

definition call :: "dbcall \<Rightarrow> state \<Rightarrow> state" where
  "call c st = st\<lparr>calls := calls st @ [c]\<rparr>"

section \<open>The handlers\<close>

subsection \<open>\<open>handleRoot\<close>\<close>

text \<open>The loop appends the keys in the order \<open>range\<close> yields them; \<open>sort.Strings\<close> orders
  them bytewise.\<close>

definition handleRoot :: "DbExplorer \<Rightarrow> iteration \<Rightarrow> Request \<Rightarrow> state \<Rightarrow> state" where
  "handleRoot de it r st =
     (let tables0 = tablesRange it;
          tables1 = sort tables0;
          response = VMap [(''response'', VMap [(''tables'', VList (map VStr tables1))])]
      in respond (json_Encode response) st)"

subsection \<open>\<open>handleGetTable\<close>\<close>

text \<open>A Go slice that may be \<open>nil\<close>: \<open>var result []T\<close> is \<open>None\<close>, and \<open>append\<close> makes it a
  slice; \<open>encoding/json\<close> writes a \<open>nil\<close> slice as \<open>null\<close>.\<close>

fun append_slice :: "'a list option \<Rightarrow> 'a \<Rightarrow> 'a list option" where
  "append_slice None x = Some [x]"
| "append_slice (Some xs) x = Some (xs @ [x])"

fun slice_val :: "val list option \<Rightarrow> val" where
  "slice_val None = VNil"
| "slice_val (Some xs) = VList xs"

text \<open>\<open>*(columnPointers[i].(*interface{}))\<close> after the scan: the value scanned into the
  pointer, \<open>nil\<close> in a pointer the scan did not reach.\<close>

definition cell :: "val list \<Rightarrow> nat \<Rightarrow> val" where
  "cell vs i = (if i < length vs then vs ! i else VNil)"

text \<open>\<open>for i, colName := range columns { rowMap[colName] = val }\<close>.\<close>

definition make_rowMap :: "string list \<Rightarrow> val list \<Rightarrow> (string \<times> val) list" where
  "make_rowMap columns vs =
     fold (\<lambda>(i, colName) rowMap. AList.update colName (cell vs i) rowMap)
          (enumerate 0 columns) []"

text \<open>\<open>for rows.Next() { ... }\<close>: a failed scan ends the handler, a scanned row is appended.\<close>

fun scan_rows :: "string list \<Rightarrow> (error + val list) list \<Rightarrow> val list option
                  \<Rightarrow> error + val list option" where
  "scan_rows columns [] result = Inr result"
| "scan_rows columns (Inl err # rest) result = Inl err"
| "scan_rows columns (Inr vs # rest) result =
     scan_rows columns rest (append_slice result (VMap (make_rowMap columns vs)))"

definition getTable_query :: "Request \<Rightarrow> string \<Rightarrow> string" where
  "getTable_query r tableName =
     (let limit = Values_Get (URL_Query r) ''limit'';
          offset = Values_Get (URL_Query r) ''offset'';
          limitValue = (if limit \<noteq> [] then limit else ''100'');
          offsetValue = (if offset \<noteq> [] then offset else ''0'')
      in ''SELECT * FROM '' @ tableName @ '' LIMIT '' @ limitValue @ '' OFFSET '' @ offsetValue)"

definition handleGetTable :: "DbExplorer \<Rightarrow> Request \<Rightarrow> string \<Rightarrow> state \<Rightarrow> state" where
  "handleGetTable de r tableName st =
     (let query = getTable_query r tableName;
          st1 = call (QueryContext query []) st
      in case db_QueryContext (db de) query [] of
           Inl err \<Rightarrow> respond (http_Error (Error err) 500) st1
         | Inr rows \<Rightarrow>
             (case Columns rows of
                Inl err \<Rightarrow> respond (http_Error (Error err) 500) st1
              | Inr columns \<Rightarrow>
                  (case scan_rows columns (scans rows) None of
                     Inl err \<Rightarrow> respond (http_Error (Error err) 500) st1
                   | Inr result \<Rightarrow>
                       (let response = VMap [(''response'',
                                              VMap [(''records'', slice_val result)])]
                        in respond (json_Encode response) st1))))"

subsection \<open>\<open>handlePutTable\<close>\<close>

text \<open>
  \<open>decoder.Decode(&data)\<close> into a \<open>map[string]interface{}\<close>: \<open>None\<close> is the error. An object
  decodes to its map, a later member replacing an earlier one of the same name; \<open>null\<close>
  leaves the map \<open>nil\<close>, which reads as the empty map; any other JSON value is an error.
\<close>

fun Decode_map :: "body \<Rightarrow> (string \<rightharpoonup> val) option" where
  "Decode_map Malformed = None"
| "Decode_map (Json (VMap kvs)) = Some (map_of (rev kvs))"
| "Decode_map (Json VNil) = Some Map.empty"
| "Decode_map (Json v) = None"

text \<open>\<open>for key, value := range data { ... }\<close> over the entries in the order of the run.\<close>

fun set_loop :: "(string \<times> val) list \<Rightarrow> string list \<Rightarrow> val list \<Rightarrow> string list \<times> val list" where
  "set_loop [] setClauses vals = (setClauses, vals)"
| "set_loop ((key, v) # rest) setClauses vals =
     (if key = ''id'' then set_loop rest setClauses vals
      else set_loop rest (setClauses @ [key @ '' = $'' @ itoa (length vals + 1)]) (vals @ [v]))"

definition handlePutTable :: "DbExplorer \<Rightarrow> iteration \<Rightarrow> Request \<Rightarrow> string \<Rightarrow> state \<Rightarrow> state" where
  \<open>handlePutTable de it r tableName st =
     (case Decode_map (Body r) of
        None \<Rightarrow> respond (http_Error ''Invalid JSON'' 400) st
      | Some data \<Rightarrow>
          (case data ''id'' of
             None \<Rightarrow> respond (http_Error ''Missing 'id' field'' 400) st
           | Some idv \<Rightarrow>
               (let (setClauses, vals0) = set_loop (dataRange it) [] [];
                    vals = vals0 @ [idv];
                    query = ''UPDATE '' @ tableName @ '' SET '' @ strings_Join setClauses '', '' @
                            '' WHERE id = $'' @ itoa (length vals);
                    st1 = call (Exec query vals) st
                in case db_Exec (db de) query vals of
                     Some err \<Rightarrow>
                       respond (http_Error (''Error updating record: '' @ Error err) 500) st1
                   | None \<Rightarrow>
                       (let response = VMap [(''response'', VMap [(''id'', idv)])]
                        in respond (json_Encode response)
                             (respond (Header_Set ''Content-Type'' ''application/json'') st1)))))\<close>

subsection \<open>\<open>handleGetRecord\<close>\<close>

text \<open>\<open>for columns.Next() { columns.Scan(&columnName) ... }\<close>.\<close>

fun scan_columns :: "(error + string) list \<Rightarrow> string list \<Rightarrow> error + string list" where
  "scan_columns [] columnNames = Inr columnNames"
| "scan_columns (Inl err # rest) columnNames = Inl err"
| "scan_columns (Inr columnName # rest) columnNames =
     scan_columns rest (columnNames @ [columnName])"

definition getRecord_query :: "string \<Rightarrow> string" where
  "getRecord_query tableName = ''SELECT * FROM '' @ tableName @ '' WHERE id = $1''"

definition columns_query :: string where
  "columns_query = ''SELECT column_name FROM information_schema.columns WHERE table_name = $1''"

definition handleGetRecord :: "DbExplorer \<Rightarrow> Request \<Rightarrow> string \<Rightarrow> string \<Rightarrow> state \<Rightarrow> state" where
  \<open>handleGetRecord de r tableName idv st =
     (let row = db_QueryRow (db de) (getRecord_query tableName) [VStr idv];
          st1 = call (QueryRow (getRecord_query tableName) [VStr idv]) st;
          st2 = call (Query columns_query [VStr tableName]) st1
      in case db_Query (db de) columns_query [VStr tableName] of
           Inl err \<Rightarrow> respond (http_Error (Error err) 500) st2
         | Inr columns \<Rightarrow>
             (case scan_columns columns [] of
                Inl err \<Rightarrow> respond (http_Error (Error err) 500) st2
              | Inr columnNames \<Rightarrow>
                  (case Row_Scan row (length columnNames) of
                     Inl err \<Rightarrow>
                       (if err = ErrNoRows
                        then respond (http_Error ''{"error": "record not found"}'' 404) st2
                        else respond (http_Error (Error err) 500) st2)
                   | Inr vs \<Rightarrow>
                       (let rowMap = make_rowMap columnNames vs;
                            response = VMap [(''response'', VMap [(''record'', VMap rowMap)])]
                        in respond (json_Encode response) st2))))\<close>

subsection \<open>The stubs\<close>

definition handlePostRecord :: "DbExplorer \<Rightarrow> Request \<Rightarrow> string \<Rightarrow> string \<Rightarrow> state \<Rightarrow> state" where
  "handlePostRecord de r tableName idv st =
     respond (http_Error ''POST operation not implemented for this table'' 501) st"

definition handleDeleteRecord :: "DbExplorer \<Rightarrow> Request \<Rightarrow> string \<Rightarrow> string \<Rightarrow> state \<Rightarrow> state" where
  "handleDeleteRecord de r tableName idv st =
     respond (http_Error ''DELETE operation not implemented for this table'' 501) st"

subsection \<open>\<open>ServeHTTP\<close>\<close>

definition path_parts :: "Request \<Rightarrow> string list" where
  "path_parts r = strings_Split (strings_Trim (URL_Path r) CHR ''/'') CHR ''/''"

definition ServeHTTP :: "DbExplorer \<Rightarrow> iteration \<Rightarrow> Request \<Rightarrow> state \<Rightarrow> state" where
  \<open>ServeHTTP de it r st =
     (let parts = path_parts r
      in if length parts = 1 \<and> parts ! 0 = [] then handleRoot de it r st
         else
           (let tableName = parts ! 0
            in if tables de tableName = None
               then respond (http_Error ''{"error": "unknown table"}'' 404) st
               else if length parts = 1 then
                 (if Method r = ''GET'' then handleGetTable de r tableName st
                  else if Method r = ''PUT'' then handlePutTable de it r tableName st
                  else respond (http_Error ''Method not allowed'' 405) st)
               else if length parts = 2 then
                 (let idv = parts ! 1
                  in if Method r = ''GET'' then handleGetRecord de r tableName idv st
                     else if Method r = ''POST'' then handlePostRecord de r tableName idv st
                     else if Method r = ''DELETE'' then handleDeleteRecord de r tableName idv st
                     else respond (http_Error ''Method not allowed'' 405) st)
               else st))\<close>

section \<open>A sample database\<close>

text \<open>
  A database in the shape of the fixture of \<open>main_test.go\<close>: the tables \<open>items\<close> and
  \<open>users\<close>, two rows in \<open>items\<close>. It answers the statements the examples below send;
  an update succeeds, any other list statement is a syntax error, any other record is not
  found.
\<close>

definition sample_columns :: "string list" where
  "sample_columns = [''id'', ''title'', ''description'', ''updated'']"

definition sample_items :: "val list list" where
  "sample_items =
     [[VInt 1, VStr ''database/sql'', VStr ''about databases'', VStr ''rvasily''],
      [VInt 2, VStr ''memcache'', VStr ''about memcache'', VNil]]"

definition sample_db :: DB where
  "sample_db =
     \<lparr>db_QueryContext = (\<lambda>q args.
        if q = ''SELECT * FROM items LIMIT 100 OFFSET 0''
        then Inr \<lparr>Columns = Inr sample_columns, scans = map Inr sample_items\<rparr>
        else if q = ''SELECT * FROM items LIMIT 1 OFFSET 1''
        then Inr \<lparr>Columns = Inr sample_columns, scans = map Inr (take 1 (drop 1 sample_items))\<rparr>
        else if q = ''SELECT * FROM items LIMIT 100 OFFSET 2''
        then Inr \<lparr>Columns = Inr sample_columns, scans = []\<rparr>
        else Inl (Err ''pq: syntax error'')),
      db_Exec = (\<lambda>q args. None),
      db_QueryRow = (\<lambda>q args.
        if q = ''SELECT * FROM items WHERE id = $1'' \<and> args = [VStr ''1'']
        then RowVals (sample_items ! 0)
        else RowNone),
      db_Query = (\<lambda>q args.
        if q = columns_query \<and> args = [VStr ''items'']
        then Inr (map Inr sample_columns)
        else Inr [])\<rparr>"

text \<open>The same database when the connection is lost before the column query.\<close>

definition failing_db :: DB where
  "failing_db = sample_db\<lparr>db_Query := (\<lambda>q args. Inl (Err ''driver: bad connection''))\<rparr>"

definition sample_de :: DbExplorer where
  "sample_de = \<lparr>db = sample_db, tables = [''items'' \<mapsto> [], ''users'' \<mapsto> []]\<rparr>"

definition sample_it :: iteration where
  "sample_it = \<lparr>tablesRange = [''users'', ''items''], dataRange = []\<rparr>"

text \<open>A request with no query string and an empty body.\<close>

definition request :: "string \<Rightarrow> string \<Rightarrow> Request" where
  "request m p = \<lparr>Method = m, URL_Path = p, URL_Query = Map.empty, Body = Malformed\<rparr>"

text \<open>\<open>GET /items?limit=1&offset=1\<close> and \<open>GET /items?offset=2\<close>.\<close>

definition paged_request :: Request where
  "paged_request =
     (request ''GET'' ''/items'')\<lparr>URL_Query := [''limit'' \<mapsto> [''1''], ''offset'' \<mapsto> [''1'']]\<rparr>"

definition empty_page_request :: Request where
  "empty_page_request = (request ''GET'' ''/items'')\<lparr>URL_Query := [''offset'' \<mapsto> [''2'']]\<rparr>"

definition failing_de :: DbExplorer where
  "failing_de = sample_de\<lparr>db := failing_db\<rparr>"





section \<open>Properties\<close>

lemmas writer_defs = respond_def call_def http_Error_def json_Encode_def Write_def
  WriteHeader_def Header_Set_def Header_Del_def new_writer_def start_def StatusCode_def

lemmas sample_defs = sample_de_def sample_db_def sample_it_def request_def path_parts_def
  strings_Trim_def sample_columns_def sample_items_def

lemma strings_Split_not_Nil [simp]: "strings_Split s c \<noteq> []"
  by (induction s) (auto split: list.splits)

lemma not_root_iff:
  "(length (path_parts r) = 1 \<and> path_parts r ! 0 = []) \<longleftrightarrow> path_parts r = [[]]"
  by (cases "path_parts r") auto

lemma ServeHTTP_one_segment:
  assumes "path_parts r = [t]" and "t \<noteq> []" and "tables de t \<noteq> None"
  shows "ServeHTTP de it r st =
           (if Method r = ''GET'' then handleGetTable de r t st
            else if Method r = ''PUT'' then handlePutTable de it r t st
            else respond (http_Error ''Method not allowed'' 405) st)"
  using assms by (auto simp add: ServeHTTP_def Let_def)

lemma ServeHTTP_two_segments:
  assumes "path_parts r = [t, i]" and "tables de t \<noteq> None"
  shows "ServeHTTP de it r st =
           (if Method r = ''GET'' then handleGetRecord de r t i st
            else if Method r = ''POST'' then handlePostRecord de r t i st
            else if Method r = ''DELETE'' then handleDeleteRecord de r t i st
            else respond (http_Error ''Method not allowed'' 405) st)"
  using assms by (auto simp add: ServeHTTP_def Let_def)

text \<open>Sorting any enumeration of the keys of a map gives the one sorted list of its keys.\<close>

lemma sort_keys:
  assumes "range_of_keys ks m"
  shows "sort ks = sorted_list_of_set (dom m)"
proof -
  have "distinct ks" and "set ks = dom m"
    using assms by (simp_all add: range_of_keys_def)
  have "sorted_list_of_set (set ks) = sort (remdups ks)"
    by (rule sorted_list_of_set_sort_remdups)
  with \<open>distinct ks\<close> \<open>set ks = dom m\<close> show ?thesis
    by (simp add: distinct_remdups_id)
qed

lemma http_Error_new_writer:
  "http_Error msg c new_writer =
     \<lparr>w_header = [(''Content-Type'', ''text/plain; charset=utf-8''),
                  (''X-Content-Type-Options'', ''nosniff'')],
      w_status = Some c, w_body = [Line msg]\<rparr>"
  by (simp add: writer_defs)







text \<open>The scanning loops.\<close>

lemma scan_columns_ok: "scan_columns (map Inr names) acc = Inr (acc @ names)"
  by (induction names arbitrary: acc) auto

lemma scan_columns_fail: "scan_columns (map Inr names @ Inl e # rest) acc = Inl e"
  by (induction names arbitrary: acc) auto

lemma scan_rows_ok:
  "scan_rows cols (map Inr vss) acc =
     Inr (if vss = [] then acc
          else Some ((case acc of None \<Rightarrow> [] | Some xs \<Rightarrow> xs) @
                     map (\<lambda>vs. VMap (make_rowMap cols vs)) vss))"
proof (induction vss arbitrary: acc)
  case Nil
  then show ?case by simp
next
  case (Cons vs vss)
  then show ?case by (cases acc) auto
qed


text \<open>When the query succeeds and every row scans, \<open>handleGetTable\<close> answers 200; the
  records are one object per row, or \<open>null\<close> when there is no row.\<close>

lemma handleGetTable_records:
  assumes "db_QueryContext (db de) (getTable_query r t) [] = Inr rows"
    and "Columns rows = Inr cols" and "scans rows = map Inr vss"
  shows "resp (handleGetTable de r t start) =
           \<lparr>w_header = [], w_status = Some 200,
            w_body = [JsonLine (VMap [(''response'', VMap [(''records'',
                        if vss = [] then VNil
                        else VList (map (\<lambda>vs. VMap (make_rowMap cols vs)) vss))])])]\<rparr>"
  using assms by (simp add: handleGetTable_def Let_def scan_rows_ok writer_defs)

subsection \<open>Paths of three or more segments\<close>

text \<open>
  C10. When the trimmed path splits into three or more segments and the first is a table of
  the catalog, \<open>ServeHTTP\<close> returns the state it was given, whatever the method: on a fresh
  writer no status line, no header and no body have been written and no call has been made
  on the database, so the client receives the default empty 200 of the HTTP layer.
\<close>

theorem long_path_writes_nothing:
  assumes "3 \<le> length (path_parts r)" and "tables de (path_parts r ! 0) \<noteq> None"
  shows "ServeHTTP de it r st = st \<and>
         w_status (resp (ServeHTTP de it r start)) = None \<and>
         w_header (resp (ServeHTTP de it r start)) = [] \<and>
         w_body (resp (ServeHTTP de it r start)) = [] \<and>
         calls (ServeHTTP de it r start) = [] \<and>
         StatusCode (resp (ServeHTTP de it r start)) = 200"
proof -
  have "ServeHTTP de it r s = s" for s
    using assms by (auto simp: ServeHTTP_def Let_def)
  then show ?thesis
    by (simp add: writer_defs)
qed

theorem long_path_writes_nothing_witness:
  "3 \<le> length (path_parts (request ''DELETE'' ''/items/1/history'')) \<and>
   tables sample_de (path_parts (request ''DELETE'' ''/items/1/history'') ! 0) \<noteq> None \<and>
   ServeHTTP sample_de sample_it (request ''DELETE'' ''/items/1/history'') start = start \<and>
   StatusCode (resp (ServeHTTP sample_de sample_it (request ''DELETE'' ''/items/1/history'') start)) = 200"
proof -
  have a: "3 \<le> length (path_parts (request ''DELETE'' ''/items/1/history''))"
    by (simp add: sample_defs)
  have b: "tables sample_de (path_parts (request ''DELETE'' ''/items/1/history'') ! 0) \<noteq> None"
    by (simp add: sample_defs)
  show ?thesis
    using a b long_path_writes_nothing [OF a b, of sample_it start] by blast
qed

subsection \<open>Unknown tables\<close>

text \<open>
  C4. When the path is not the root and its first segment is not a key of the catalog,
  \<open>ServeHTTP\<close> answers 404 with the line \<open>{"error": "unknown table"}\<close> through
  \<open>http.Error\<close> and makes no call on the database, whatever the method and however many
  segments the path has (one and two among them).
\<close>

theorem unknown_table_404:
  assumes "path_parts r \<noteq> [[]]" and "tables de (path_parts r ! 0) = None"
  shows \<open>ServeHTTP de it r start =
           \<lparr>resp = \<lparr>w_header = [(''Content-Type'', ''text/plain; charset=utf-8''),
                                (''X-Content-Type-Options'', ''nosniff'')],
                    w_status = Some 404,
                    w_body = [Line ''{"error": "unknown table"}'']\<rparr>,
            calls = []\<rparr>\<close>
proof -
  have "\<not> (length (path_parts r) = 1 \<and> path_parts r ! 0 = [])"
    using assms(1) not_root_iff [of r] by blast
  then show ?thesis
    using assms(2) by (auto simp add: ServeHTTP_def Let_def writer_defs)
qed

theorem unknown_table_404_witness:
  \<open>path_parts (request ''PUT'' ''/unknown_table'') \<noteq> [[]] \<and>
   tables sample_de (path_parts (request ''PUT'' ''/unknown_table'') ! 0) = None \<and>
   w_status (resp (ServeHTTP sample_de sample_it (request ''PUT'' ''/unknown_table'') start)) = Some 404 \<and>
   w_body (resp (ServeHTTP sample_de sample_it (request ''PUT'' ''/unknown_table'') start)) =
     [Line ''{"error": "unknown table"}''] \<and>
   calls (ServeHTTP sample_de sample_it (request ''PUT'' ''/unknown_table'') start) = []\<close>
proof -
  have a: "path_parts (request ''PUT'' ''/unknown_table'') \<noteq> [[]]"
    by (simp add: sample_defs)
  have b: "tables sample_de (path_parts (request ''PUT'' ''/unknown_table'') ! 0) = None"
    by (simp add: sample_defs)
  show ?thesis
    using a b unknown_table_404 [OF a b, of sample_it] by simp
qed

subsection \<open>The stubs\<close>

text \<open>
  Against C1 as stated: \<open>POST /nope/1\<close>, where \<open>nope\<close> is not a table of the catalog, is
  answered 404 \<open>unknown table\<close> by the table check of \<open>ServeHTTP\<close>, not 501.
\<close>

theorem post_on_missing_table_not_501:
  \<open>tables sample_de ''nope'' = None \<and>
   w_status (resp (ServeHTTP sample_de sample_it (request ''POST'' ''/nope/1'') start)) = Some 404 \<and>
   w_body (resp (ServeHTTP sample_de sample_it (request ''POST'' ''/nope/1'') start)) =
     [Line ''{"error": "unknown table"}'']\<close>
  by (simp add: sample_defs ServeHTTP_def writer_defs)

text \<open>
  C1 (amended). For every request with method POST or DELETE on a two-segment path whose
  first segment is a table of the catalog, whatever the second segment, \<open>ServeHTTP\<close>
  answers 501 through \<open>http.Error\<close> (content type \<open>text/plain\<close>) with the line
  \<open>POST operation not implemented for this table\<close>, respectively \<open>DELETE ...\<close>, and makes
  no call on the database.
\<close>

theorem stubs_answer_501:
  assumes "path_parts r = [t, i]" and "tables de t \<noteq> None"
    and "Method r = ''POST'' \<or> Method r = ''DELETE''"
  shows "ServeHTTP de it r start =
           \<lparr>resp = \<lparr>w_header = [(''Content-Type'', ''text/plain; charset=utf-8''),
                                (''X-Content-Type-Options'', ''nosniff'')],
                    w_status = Some 501,
                    w_body = [Line (Method r @ '' operation not implemented for this table'')]\<rparr>,
            calls = []\<rparr>"
  using assms(3)
  by (auto simp add: ServeHTTP_two_segments [OF assms(1,2)]
        handlePostRecord_def handleDeleteRecord_def writer_defs)

theorem stubs_answer_501_witness:
  "path_parts (request ''DELETE'' ''/items/abc'') = [''items'', ''abc''] \<and>
   tables sample_de ''items'' \<noteq> None \<and>
   w_status (resp (ServeHTTP sample_de sample_it (request ''DELETE'' ''/items/abc'') start)) = Some 501 \<and>
   w_body (resp (ServeHTTP sample_de sample_it (request ''DELETE'' ''/items/abc'') start)) =
     [Line ''DELETE operation not implemented for this table''] \<and>
   calls (ServeHTTP sample_de sample_it (request ''DELETE'' ''/items/abc'') start) = []"
proof -
  have a: "path_parts (request ''DELETE'' ''/items/abc'') = [''items'', ''abc'']"
    by (simp add: sample_defs)
  have b: "tables sample_de ''items'' \<noteq> None"
    by (simp add: sample_defs)
  have c: "Method (request ''DELETE'' ''/items/abc'') = ''POST'' \<or>
           Method (request ''DELETE'' ''/items/abc'') = ''DELETE''"
    by (simp add: request_def)
  have d: "Method (request ''DELETE'' ''/items/abc'') = ''DELETE''"
    by (simp add: request_def)
  show ?thesis
    using a b stubs_answer_501 [OF a b c, of sample_it] by (simp add: d)
qed

subsection \<open>The root listing\<close>

text \<open>
  C9. On the root path, for every catalog and every order in which \<open>range de.tables\<close>
  yields its keys, \<open>ServeHTTP\<close> writes status 200 and the one JSON line
  \<open>{"response": {"tables": [...]}}\<close> whose array is the sorted list of the keys of the
  catalog (bytewise lexicographic order, each key once) and makes no call on the database.
  The response does not depend on the order of iteration.
\<close>

theorem root_lists_sorted_tables:
  assumes "path_parts r = [[]]" and "range_of_keys (tablesRange it) (tables de)"
  shows "ServeHTTP de it r start =
           \<lparr>resp = \<lparr>w_header = [], w_status = Some 200,
                    w_body = [JsonLine (VMap [(''response'',
                                VMap [(''tables'',
                                  VList (map VStr (sorted_list_of_set (dom (tables de)))))])])]\<rparr>,
            calls = []\<rparr> \<and>
         sorted (sorted_list_of_set (dom (tables de))) \<and>
         distinct (sorted_list_of_set (dom (tables de))) \<and>
         set (sorted_list_of_set (dom (tables de))) = dom (tables de)"
proof -
  have fin: "finite (dom (tables de))"
    using assms(2) by (metis range_of_keys_def List.finite_set)
  have "ServeHTTP de it r start = handleRoot de it r start"
    using assms(1) by (simp add: ServeHTTP_def Let_def)
  moreover have "sort (tablesRange it) = sorted_list_of_set (dom (tables de))"
    using assms(2) by (rule sort_keys)
  ultimately show ?thesis
    using fin by (simp add: handleRoot_def Let_def writer_defs)
qed

theorem root_lists_sorted_tables_witness:
  "path_parts (request ''GET'' ''/'') = [[]] \<and>
   range_of_keys [''users'', ''items''] (tables sample_de) \<and>
   range_of_keys [''items'', ''users''] (tables sample_de) \<and>
   ServeHTTP sample_de (sample_it\<lparr>tablesRange := [''users'', ''items'']\<rparr>) (request ''GET'' ''/'') start =
   ServeHTTP sample_de (sample_it\<lparr>tablesRange := [''items'', ''users'']\<rparr>) (request ''GET'' ''/'') start \<and>
   w_status (resp (ServeHTTP sample_de (sample_it\<lparr>tablesRange := [''users'', ''items'']\<rparr>)
                     (request ''GET'' ''/'') start)) = Some 200 \<and>
   w_body (resp (ServeHTTP sample_de (sample_it\<lparr>tablesRange := [''users'', ''items'']\<rparr>)
                     (request ''GET'' ''/'') start)) =
     [JsonLine (VMap [(''response'',
        VMap [(''tables'', VList [VStr ''items'', VStr ''users''])])])]"
proof -
  have a: "path_parts (request ''GET'' ''/'') = [[]]"
    by (simp add: sample_defs)
  have b: "range_of_keys (tablesRange (sample_it\<lparr>tablesRange := [''users'', ''items'']\<rparr>))
             (tables sample_de)"
    by (auto simp add: range_of_keys_def sample_defs)
  have c: "range_of_keys (tablesRange (sample_it\<lparr>tablesRange := [''items'', ''users'']\<rparr>))
             (tables sample_de)"
    by (auto simp add: range_of_keys_def sample_defs)
  have d: "sorted_list_of_set (dom (tables sample_de)) = [''items'', ''users'']"
    using sort_keys [OF b] by simp
  show ?thesis
    using a b c root_lists_sorted_tables [OF a b] root_lists_sorted_tables [OF a c] by (simp add: d)
qed

subsection \<open>Listing a table\<close>

text \<open>
  C5. \<open>handleGetTable\<close>, which \<open>ServeHTTP\<close> runs for a GET on a one-segment path whose
  segment is a table of the catalog, makes exactly one call on the database, \<open>QueryContext\<close>
  with no bound argument, and the statement text is
  \<open>SELECT * FROM {table} LIMIT {limit} OFFSET {offset}\<close> with the first \<open>limit\<close> and
  \<open>offset\<close> values of the query string spliced in as they are; \<open>100\<close> and \<open>0\<close> stand in
  when the parameter is absent or empty.
\<close>

theorem handleGetTable_statement:
  "calls (handleGetTable de r t start) =
           [QueryContext
              (''SELECT * FROM '' @ t @
               '' LIMIT '' @ (case URL_Query r ''limit'' of
                                None \<Rightarrow> ''100'' | Some [] \<Rightarrow> ''100''
                              | Some (x # xs) \<Rightarrow> if x = [] then ''100'' else x) @
               '' OFFSET '' @ (case URL_Query r ''offset'' of
                                None \<Rightarrow> ''0'' | Some [] \<Rightarrow> ''0''
                              | Some (x # xs) \<Rightarrow> if x = [] then ''0'' else x))
              []] \<and>
   (path_parts r = [t] \<and> t \<noteq> [] \<and> tables de t \<noteq> None \<and> Method r = ''GET'' \<longrightarrow>
      ServeHTTP de it r start = handleGetTable de r t start)"
proof -
  have q: "getTable_query r t =
             ''SELECT * FROM '' @ t @
               '' LIMIT '' @ (case URL_Query r ''limit'' of
                                None \<Rightarrow> ''100'' | Some [] \<Rightarrow> ''100''
                              | Some (x # xs) \<Rightarrow> if x = [] then ''100'' else x) @
               '' OFFSET '' @ (case URL_Query r ''offset'' of
                                None \<Rightarrow> ''0'' | Some [] \<Rightarrow> ''0''
                              | Some (x # xs) \<Rightarrow> if x = [] then ''0'' else x)"
    by (simp add: getTable_query_def Values_Get_def Let_def split: option.splits list.splits)
  have "calls (handleGetTable de r t start) = [QueryContext (getTable_query r t) []]"
    by (simp add: handleGetTable_def Let_def respond_def call_def start_def
             split: sum.splits)
  then show ?thesis
    by (simp only: q) (simp add: ServeHTTP_one_segment)
qed

theorem handleGetTable_statement_witness:
  "path_parts paged_request = [''items''] \<and> tables sample_de ''items'' \<noteq> None \<and>
   Method paged_request = ''GET'' \<and>
   calls (ServeHTTP sample_de sample_it paged_request start) =
     [QueryContext ''SELECT * FROM items LIMIT 1 OFFSET 1'' []] \<and>
   calls (handleGetTable sample_de (request ''GET'' ''/items'') ''items'' start) =
     [QueryContext ''SELECT * FROM items LIMIT 100 OFFSET 0'' []]"
proof -
  have a: "path_parts paged_request = [''items'']"
    by (simp add: paged_request_def sample_defs)
  have b: "tables sample_de ''items'' \<noteq> None"
    by (simp add: sample_defs)
  have c: "Method paged_request = ''GET''"
    by (simp add: paged_request_def request_def)
  show ?thesis
    using a b c handleGetTable_statement [of sample_de paged_request "''items''" sample_it]
      handleGetTable_statement [of sample_de "request ''GET'' ''/items''" "''items''" sample_it]
    by (simp add: paged_request_def request_def)
qed

text \<open>
  C3. \<open>GET /items?offset=2\<close> on the two-row table: the query succeeds with no row, and
  the body is \<open>{"response": {"records": null}}\<close>, since \<open>result\<close> is still the \<open>nil\<close> slice
  it was declared as; the specification asks for an array of length \<open>min(100, 2 - 2) = 0\<close>.
\<close>

theorem empty_page_records_null:
  "ServeHTTP sample_de sample_it empty_page_request start =
     \<lparr>resp = \<lparr>w_header = [], w_status = Some 200,
              w_body = [JsonLine (VMap [(''response'', VMap [(''records'', VNil)])])]\<rparr>,
      calls = [QueryContext ''SELECT * FROM items LIMIT 100 OFFSET 2'' []]\<rparr>"
  by (simp add: empty_page_request_def sample_defs ServeHTTP_def handleGetTable_def
      getTable_query_def Values_Get_def writer_defs)

subsection \<open>Updating a record\<close>






subsection \<open>Fetching a record\<close>




text \<open>
  Against C8 as stated: on \<open>GET /items/100500\<close> the \<open>SELECT\<close> matches no row, and when
  the column query fails the answer is 500 with the text of that error, not 404.
\<close>

theorem no_row_but_column_query_fails:
  "db_QueryRow (db failing_de) ''SELECT * FROM items WHERE id = $1'' [VStr ''100500''] = RowNone \<and>
   resp (ServeHTTP failing_de sample_it (request ''GET'' ''/items/100500'') start) =
     \<lparr>w_header = [(''Content-Type'', ''text/plain; charset=utf-8''),
                  (''X-Content-Type-Options'', ''nosniff'')],
      w_status = Some 500, w_body = [Line ''driver: bad connection'']\<rparr>"
  by (simp add: failing_de_def failing_db_def sample_defs ServeHTTP_def handleGetRecord_def
        getRecord_query_def columns_query_def Let_def writer_defs)

text \<open>
  C8 (amended). For every GET on a two-segment path whose first segment is a table of the
  catalog: when the column query and each scan of a column name succeed and the \<open>SELECT\<close>
  matches no row, the answer is 404 with the line \<open>{"error": "record not found"}\<close>; when
  the column query fails, or a scan of a column name fails, or (these succeeding) the row
  reports an error other than \<open>sql.ErrNoRows\<close> or holds another number of values than
  there are column names, the answer is 500 with the text of that error as the line. Each
  answer goes through \<open>http.Error\<close> on the fresh writer.
\<close>

theorem get_record_error_answers:
  assumes "path_parts r = [t, i]" and "tables de t \<noteq> None" and "Method r = ''GET''"
  shows \<open>(db_Query (db de) columns_query [VStr t] = Inr (map Inr names) \<and>
          db_QueryRow (db de) (getRecord_query t) [VStr i] = RowNone \<longrightarrow>
            resp (ServeHTTP de it r start) =
              http_Error ''{"error": "record not found"}'' 404 new_writer) \<and>
         (db_Query (db de) columns_query [VStr t] = Inl e1 \<longrightarrow>
            resp (ServeHTTP de it r start) = http_Error (Error e1) 500 new_writer) \<and>
         (db_Query (db de) columns_query [VStr t] = Inr (map Inr names @ Inl e2 # rest) \<longrightarrow>
            resp (ServeHTTP de it r start) = http_Error (Error e2) 500 new_writer) \<and>
         (db_Query (db de) columns_query [VStr t] = Inr (map Inr names) \<and>
          db_QueryRow (db de) (getRecord_query t) [VStr i] = RowErr e3 \<and> e3 \<noteq> ErrNoRows \<longrightarrow>
            resp (ServeHTTP de it r start) = http_Error (Error e3) 500 new_writer) \<and>
         (db_Query (db de) columns_query [VStr t] = Inr (map Inr names) \<and>
          db_QueryRow (db de) (getRecord_query t) [VStr i] = RowVals vs \<and>
          length vs \<noteq> length names \<longrightarrow>
            resp (ServeHTTP de it r start) =
              http_Error (''sql: expected '' @ itoa (length vs) @
                          '' destination arguments in Scan, not '' @ itoa (length names))
                500 new_writer)\<close>
proof -
  have m: "resp (ServeHTTP de it r start) = resp (handleGetRecord de r t i start)"
    using assms by (simp add: ServeHTTP_two_segments)
  show ?thesis
    unfolding m
    by (auto simp add: handleGetRecord_def Let_def scan_columns_ok scan_columns_fail
          respond_def call_def start_def)
qed

theorem get_record_error_answers_witness:
  \<open>path_parts (request ''GET'' ''/items/100500'') = [''items'', ''100500''] \<and>
   tables sample_de ''items'' \<noteq> None \<and> tables failing_de ''items'' \<noteq> None \<and>
   db_QueryRow (db sample_de) (getRecord_query ''items'') [VStr ''100500''] = RowNone \<and>
   resp (ServeHTTP sample_de sample_it (request ''GET'' ''/items/100500'') start) =
     \<lparr>w_header = [(''Content-Type'', ''text/plain; charset=utf-8''),
                  (''X-Content-Type-Options'', ''nosniff'')],
      w_status = Some 404, w_body = [Line ''{"error": "record not found"}'']\<rparr> \<and>
   db_Query (db failing_de) columns_query [VStr ''items''] = Inl (Err ''driver: bad connection'') \<and>
   resp (ServeHTTP failing_de sample_it (request ''GET'' ''/items/100500'') start) =
     \<lparr>w_header = [(''Content-Type'', ''text/plain; charset=utf-8''),
                  (''X-Content-Type-Options'', ''nosniff'')],
      w_status = Some 500, w_body = [Line ''driver: bad connection'']\<rparr>\<close>
proof -
  have a: "path_parts (request ''GET'' ''/items/100500'') = [''items'', ''100500'']"
    by (simp add: sample_defs)
  have b: "tables sample_de ''items'' \<noteq> None"
    by (simp add: sample_defs)
  have b': "tables failing_de ''items'' \<noteq> None"
    by (simp add: failing_de_def sample_defs)
  have c: "Method (request ''GET'' ''/items/100500'') = ''GET''"
    by (simp add: request_def)
  have d: "db_Query (db sample_de) columns_query [VStr ''items''] = Inr (map Inr sample_columns)"
    by (simp add: sample_de_def sample_db_def)
  have e: "db_QueryRow (db sample_de) (getRecord_query ''items'') [VStr ''100500''] = RowNone"
    by (simp add: sample_de_def sample_db_def getRecord_query_def)
  have f: "db_Query (db failing_de) columns_query [VStr ''items''] =
             Inl (Err ''driver: bad connection'')"
    by (simp add: failing_de_def failing_db_def)
  show ?thesis
    using a b b' d e f
      get_record_error_answers [OF a b c, of sample_columns sample_it]
      get_record_error_answers [OF a b' c, of _ sample_it "Err ''driver: bad connection''"]
    by (simp add: http_Error_new_writer)
qed

end
